theory Spec2Isabelle
  imports Complex_Main
begin

section \<open>Data model of \<open>src/monitoring/sla/uptime_monitor.py\<close>\<close>

text \<open>
  Python floats are modelled as \<^typ>\<open>real\<close> (comparison and arithmetic are exact, there is
  no NaN), \<open>float('inf')\<close> as the constructor \<open>Infinity\<close> of \<open>pyfloat\<close>, Python ints as
  \<^typ>\<open>int\<close>, a \<open>datetime\<close> as its number of microseconds (an \<^typ>\<open>int\<close>) and a
  \<open>timedelta\<close> as a difference of such numbers. A dictionary is a map; a dictionary
  with a fixed set of keys written by the code itself is a record.
\<close>

datatype AlertSeverity = INFO | WARNING | CRITICAL | EMERGENCY

datatype MonitorStatus = UP | DOWN | DEGRADED | MAINTENANCE

record SLAThreshold =
  sla_name :: string
  target_value :: real
  measurement_unit :: string
  measurement_period :: string
  violation_threshold :: real
  compensation_rate :: real

record MonitorResult =
  timestamp :: int
  status :: MonitorStatus
  response_time :: "real option"
  status_code :: "int option"
  error_message :: "string option"
  additional_metrics :: "(string \<times> real) list"

datatype pyfloat = Finite real | Infinity

text \<open>The entries of \<open>self.uptime_stats\<close> and \<open>self.performance_stats\<close>.\<close>

record uptime_stat =
  total_checks :: int
  successful_checks :: int
  failed_checks :: int
  last_check :: "int option"

record perf_stat =
  response_times :: "real list"
  avg_response_time :: real
  min_response_time :: pyfloat
  max_response_time :: real

text \<open>The entries of \<open>self.current_incidents\<close> and \<open>self.sla_violations\<close>.\<close>

record incident =
  incident_id :: string
  monitor_name :: string
  start_time :: int
  inc_status :: string
  inc_error_message :: "string option"
  alert_sent :: bool

record violation =
  violation_id :: string
  v_monitor_name :: string
  sla_type :: string
  threshold :: real
  actual_value :: real
  v_timestamp :: int
  v_compensation_rate :: real

text \<open>
  \<open>alert_data\<close> as \<open>_send_alert\<close> builds it. The title, the message and the ISO timestamp
  are text for the reader of the alert and are left out; the severity and the
  \<open>incident_id\<close> argument are kept.
\<close>

record alert_data =
  severity :: AlertSeverity
  a_incident_id :: string

text \<open>
  The mutable state of an \<open>UptimeMonitor\<close>. The field \<open>alerts\<close> is the trace of the calls
  of \<open>_send_alert\<close>, oldest first: the source keeps no such list, the calls are its
  effect on the outside.
\<close>

record monitor_state =
  monitor_results :: "string \<rightharpoonup> MonitorResult list"
  current_incidents :: "string \<rightharpoonup> incident"
  sla_violations :: "violation list"
  uptime_stats :: "string \<rightharpoonup> uptime_stat"
  performance_stats :: "string \<rightharpoonup> perf_stat"
  alerts :: "alert_data list"

definition initial_state :: monitor_state where
  "initial_state =
     \<lparr>monitor_results = Map.empty, current_incidents = Map.empty, sla_violations = [],
      uptime_stats = Map.empty, performance_stats = Map.empty, alerts = []\<rparr>"

section \<open>Statistics store: \<open>_update_statistics\<close>\<close>

text \<open>Python's truth value of an \<open>Optional[float]\<close>: \<open>None\<close> and \<open>0.0\<close> are false.\<close>

definition truthy :: "real option \<Rightarrow> bool" where
  "truthy x = (case x of None \<Rightarrow> False | Some t \<Rightarrow> t \<noteq> 0)"

definition new_uptime_stat :: uptime_stat where
  "new_uptime_stat =
     \<lparr>total_checks = 0, successful_checks = 0, failed_checks = 0, last_check = None\<rparr>"

definition new_perf_stat :: perf_stat where
  "new_perf_stat =
     \<lparr>response_times = [], avg_response_time = 0, min_response_time = Infinity,
      max_response_time = 0\<rparr>"

text \<open>\<open>min(a, x)\<close> where \<open>a\<close> may be \<open>float('inf')\<close>.\<close>

fun min_pyfloat :: "pyfloat \<Rightarrow> real \<Rightarrow> pyfloat" where
  "min_pyfloat Infinity x = Finite x"
| "min_pyfloat (Finite a) x = Finite (min a x)"

text \<open>\<open>xs[-1000:]\<close>, taken only when \<open>len(xs) > 1000\<close>.\<close>

definition keep_last :: "real list \<Rightarrow> real list" where
  "keep_last xs = (if length xs > 1000 then drop (length xs - 1000) xs else xs)"

definition update_perf :: "perf_stat \<Rightarrow> real \<Rightarrow> perf_stat" where
  "update_perf p t =
     (let rts = keep_last (response_times p @ [t])
      in \<lparr>response_times = rts,
          avg_response_time = sum_list rts / real (length rts),
          min_response_time = min_pyfloat (min_response_time p) t,
          max_response_time = max (max_response_time p) t\<rparr>)"

definition update_uptime :: "uptime_stat \<Rightarrow> MonitorResult \<Rightarrow> uptime_stat" where
  "update_uptime u r =
     (let u1 = u\<lparr>total_checks := total_checks u + 1, last_check := Some (timestamp r)\<rparr>
      in if status r = UP then u1\<lparr>successful_checks := successful_checks u1 + 1\<rparr>
         else u1\<lparr>failed_checks := failed_checks u1 + 1\<rparr>)"

definition update_statistics :: "monitor_state \<Rightarrow> string \<Rightarrow> MonitorResult \<Rightarrow> monitor_state" where
  "update_statistics s m r =
     (let u0 = (case uptime_stats s m of None \<Rightarrow> new_uptime_stat | Some u \<Rightarrow> u);
          p0 = (case performance_stats s m of None \<Rightarrow> new_perf_stat | Some p \<Rightarrow> p);
          u1 = update_uptime u0 r;
          p1 = (case response_time r of
                  None \<Rightarrow> p0
                | Some t \<Rightarrow> if truthy (response_time r) then update_perf p0 t else p0)
      in s\<lparr>uptime_stats := (uptime_stats s)(m \<mapsto> u1),
           performance_stats := (performance_stats s)(m \<mapsto> p1)\<rparr>)"

text \<open>Feeding a sequence of (monitor name, result) pairs to \<open>_update_statistics\<close>, in order.\<close>

fun update_statistics_all :: "monitor_state \<Rightarrow> (string \<times> MonitorResult) list \<Rightarrow> monitor_state" where
  "update_statistics_all s [] = s"
| "update_statistics_all s ((m, r) # xs) = update_statistics_all (update_statistics s m r) xs"

section \<open>Uptime over a window: \<open>_calculate_uptime_percentage\<close>\<close>

definition hours :: "int \<Rightarrow> int" where
  "hours n = n * 3600000000"

definition days :: "int \<Rightarrow> int" where
  "days n = n * 86400000000"

definition window_start :: "int \<Rightarrow> string \<Rightarrow> int" where
  "window_start now period =
     (if period = ''hourly'' then now - hours 1
      else if period = ''daily'' then now - days 1
      else if period = ''monthly'' then now - days 30
      else now - hours 1)"

text \<open>\<open>now\<close> is \<open>datetime.utcnow()\<close>.\<close>

definition calculate_uptime_percentage :: "monitor_state \<Rightarrow> int \<Rightarrow> string \<Rightarrow> string \<Rightarrow> real" where
  "calculate_uptime_percentage s now m period =
     (case monitor_results s m of
        None \<Rightarrow> 100
      | Some rs \<Rightarrow>
          (let results = filter (\<lambda>r. timestamp r \<ge> window_start now period) rs
           in if results = [] then 100
              else (let up_count = length (filter (\<lambda>r. status r = UP) results);
                        total_count = length results
                    in (real up_count / real total_count) * 100)))"

section \<open>Alert dispatch: \<open>_send_alert\<close>\<close>

text \<open>
  An alert channel is a dictionary of strings. What a transport does when it is called
  is outside the program: \<open>deliver kind channel alert\<close> is \<open>True\<close> when the call of
  \<open>self._send_<kind>_alert(channel, alert_data)\<close> returns and \<open>False\<close> when it raises an
  \<open>Exception\<close>. (In the file as it stands only \<open>_send_slack_alert\<close> is defined, so the
  other three calls raise \<open>AttributeError\<close>: one of the behaviours the parameter covers.)
\<close>

type_synonym channel = "string \<rightharpoonup> string"

type_synonym deliver = "string \<Rightarrow> channel \<Rightarrow> alert_data \<Rightarrow> bool"

datatype error = KeyError string

definition known_channel_type :: "string \<Rightarrow> bool" where
  "known_channel_type t =
     (t = ''email'' \<or> t = ''slack'' \<or> t = ''webhook'' \<or> t = ''pagerduty'')"

text \<open>
  The loop over \<open>self.alert_channels\<close>. \<open>Inr calls\<close> says that the function returned,
  \<open>Inl (e, calls)\<close> that the exception \<open>e\<close> left it; in both cases \<open>calls\<close> is the list
  of the transport calls made, each with its outcome. A channel without the key \<open>type\<close>
  raises \<open>KeyError\<close> in the \<open>try\<close> block, which is caught, and again in the handler's
  log line \<open>f"Failed to send alert via {channel['type']}: {e}"\<close>, which is not: the
  loop ends there.
\<close>

fun send_alert :: "deliver \<Rightarrow> channel list \<Rightarrow> alert_data \<Rightarrow> (error \<times> (channel \<times> bool) list) + (channel \<times> bool) list" where
  "send_alert d [] a = Inr []"
| "send_alert d (c # cs) a =
     (case c ''type'' of
        None \<Rightarrow> Inl (KeyError ''type'', [])
      | Some t \<Rightarrow>
          (case send_alert d cs a of
             Inl (e, calls) \<Rightarrow>
               Inl (e, (if known_channel_type t then [(c, d t c a)] else []) @ calls)
           | Inr calls \<Rightarrow> Inr ((if known_channel_type t then [(c, d t c a)] else []) @ calls)))"

text \<open>
  The methods of the engine change the state of the monitor and may be left by an
  exception: \<open>Inr s\<close> is a return in state \<open>s\<close>, \<open>Inl (e, s)\<close> is the exception \<open>e\<close>
  with the monitor left in state \<open>s\<close> (what was written before the exception stays
  written).
\<close>

type_synonym outcome = "(error \<times> monitor_state) + monitor_state"

text \<open>
  A call of \<open>_send_alert\<close> from the engine: the call is appended to the trace, whether
  it returns or raises.
\<close>

definition call_send_alert :: "deliver \<Rightarrow> channel list \<Rightarrow> alert_data \<Rightarrow> monitor_state \<Rightarrow> outcome" where
  "call_send_alert d chans a s =
     (case send_alert d chans a of
        Inl (e, calls) \<Rightarrow> Inl (e, s\<lparr>alerts := alerts s @ [a]\<rparr>)
      | Inr calls \<Rightarrow> Inr (s\<lparr>alerts := alerts s @ [a]\<rparr>))"

section \<open>Incidents and SLA checks\<close>

text \<open>
  The immutable part of an \<open>UptimeMonitor\<close>. \<open>_load_sla_thresholds\<close> always fills in the
  default entries, so \<open>self.sla_thresholds\<close> is read as a total function of the key.
\<close>

record monitor_config =
  url :: "string option"
  http_method :: "string option"
  expected_status :: "int option"
  expected_response_time :: "real option"

record monitor_setup =
  monitors :: "(string \<times> monitor_config) list"
  sla_thresholds :: "string \<Rightarrow> SLAThreshold"
  alert_channels :: "channel list"

text \<open>
  The clock as one processed result sees it: \<open>secs\<close> is \<open>int(time.time())\<close> and
  \<open>utcnow\<close> is \<open>datetime.utcnow()\<close>.
\<close>

record clock =
  secs :: nat
  utcnow :: int

definition digit_char :: "nat \<Rightarrow> char" where
  "digit_char d = char_of (48 + d)"

fun str_nat :: "nat \<Rightarrow> string" where
  "str_nat n = (if n < 10 then [digit_char n] else str_nat (n div 10) @ [digit_char (n mod 10)])"

declare str_nat.simps [simp del]

fun status_value :: "MonitorStatus \<Rightarrow> string" where
  "status_value UP = ''up''"
| "status_value DOWN = ''down''"
| "status_value DEGRADED = ''degraded''"
| "status_value MAINTENANCE = ''maintenance''"

definition new_incident :: "clock \<Rightarrow> string \<Rightarrow> MonitorResult \<Rightarrow> incident" where
  "new_incident clk m r =
     \<lparr>incident_id = ''INC_'' @ str_nat (secs clk) @ ''_'' @ m,
      monitor_name = m,
      start_time = timestamp r,
      inc_status = status_value (status r),
      inc_error_message = error_message r,
      alert_sent = False\<rparr>"

definition handle_incident :: "monitor_setup \<Rightarrow> deliver \<Rightarrow> clock \<Rightarrow> monitor_state \<Rightarrow> string \<Rightarrow> MonitorResult \<Rightarrow> outcome" where
  "handle_incident su d clk s m r =
     (case current_incidents s m of
        Some old \<Rightarrow> Inr s
      | None \<Rightarrow>
          (let inc = new_incident clk m r;
               s1 = s\<lparr>current_incidents := (current_incidents s)(m \<mapsto> inc)\<rparr>
           in case call_send_alert d (alert_channels su)
                     \<lparr>severity = (if status r = DOWN then CRITICAL else WARNING),
                      a_incident_id = incident_id inc\<rparr> s1 of
                Inl e \<Rightarrow> Inl e
              | Inr s2 \<Rightarrow>
                  Inr (s2\<lparr>current_incidents :=
                            (current_incidents s2)(m \<mapsto> inc\<lparr>alert_sent := True\<rparr>)\<rparr>)))"

text \<open>
  \<open>_resolve_incident\<close> writes \<open>end_time\<close>, \<open>downtime\<close> and \<open>resolved\<close> into the incident
  dictionary and then deletes the only reference to it: nothing of that is left in the
  state.
\<close>

definition resolve_incident :: "monitor_setup \<Rightarrow> deliver \<Rightarrow> monitor_state \<Rightarrow> string \<Rightarrow> MonitorResult \<Rightarrow> outcome" where
  "resolve_incident su d s m r =
     (case current_incidents s m of
        None \<Rightarrow> Inr s
      | Some inc \<Rightarrow>
          (case call_send_alert d (alert_channels su)
                  \<lparr>severity = INFO, a_incident_id = incident_id inc\<rparr> s of
             Inl e \<Rightarrow> Inl e
           | Inr s1 \<Rightarrow> Inr (s1\<lparr>current_incidents := (current_incidents s1)(m := None)\<rparr>)))"

text \<open>The two violation dictionaries that \<open>_check_sla_violations\<close> builds.\<close>

definition uptime_violation :: "SLAThreshold \<Rightarrow> clock \<Rightarrow> string \<Rightarrow> MonitorResult \<Rightarrow> real \<Rightarrow> violation" where
  "uptime_violation uptime_threshold clk m r uptime_percentage =
     \<lparr>violation_id = ''SLA_'' @ str_nat (secs clk) @ ''_'' @ m @ ''_uptime'',
      v_monitor_name = m,
      sla_type = ''uptime'',
      threshold = target_value uptime_threshold,
      actual_value = uptime_percentage,
      v_timestamp = timestamp r,
      v_compensation_rate = compensation_rate uptime_threshold\<rparr>"

definition response_time_violation :: "SLAThreshold \<Rightarrow> clock \<Rightarrow> string \<Rightarrow> MonitorResult \<Rightarrow> real \<Rightarrow> violation" where
  "response_time_violation response_threshold clk m r t =
     \<lparr>violation_id = ''SLA_'' @ str_nat (secs clk) @ ''_'' @ m @ ''_response_time'',
      v_monitor_name = m,
      sla_type = ''response_time'',
      threshold = target_value response_threshold,
      actual_value = t,
      v_timestamp = timestamp r,
      v_compensation_rate = compensation_rate response_threshold\<rparr>"

text \<open>The two checks of \<open>_check_sla_violations\<close>, in the order of the source.\<close>

definition check_uptime_sla :: "monitor_setup \<Rightarrow> deliver \<Rightarrow> clock \<Rightarrow> monitor_state \<Rightarrow> string \<Rightarrow> MonitorResult \<Rightarrow> outcome" where
  "check_uptime_sla su d clk s m r =
     (if status r = DOWN then
        (let uptime_percentage = calculate_uptime_percentage s (utcnow clk) m ''monthly'';
             uptime_threshold = sla_thresholds su ''uptime''
         in if uptime_percentage < violation_threshold uptime_threshold then
              (let v = uptime_violation uptime_threshold clk m r uptime_percentage
               in call_send_alert d (alert_channels su)
                    \<lparr>severity = EMERGENCY, a_incident_id = violation_id v\<rparr>
                    (s\<lparr>sla_violations := sla_violations s @ [v]\<rparr>))
            else Inr s)
      else Inr s)"

definition check_response_time_sla :: "monitor_setup \<Rightarrow> deliver \<Rightarrow> clock \<Rightarrow> monitor_state \<Rightarrow> string \<Rightarrow> MonitorResult \<Rightarrow> outcome" where
  "check_response_time_sla su d clk s m r =
     (case response_time r of
        None \<Rightarrow> Inr s
      | Some t \<Rightarrow>
          if truthy (response_time r) then
            (let response_threshold = sla_thresholds su ''api_response_time''
             in if t > violation_threshold response_threshold then
                  (let v = response_time_violation response_threshold clk m r t
                   in call_send_alert d (alert_channels su)
                        \<lparr>severity = WARNING, a_incident_id = violation_id v\<rparr>
                        (s\<lparr>sla_violations := sla_violations s @ [v]\<rparr>))
                else Inr s)
          else Inr s)"

definition check_sla_violations :: "monitor_setup \<Rightarrow> deliver \<Rightarrow> clock \<Rightarrow> monitor_state \<Rightarrow> string \<Rightarrow> MonitorResult \<Rightarrow> outcome" where
  "check_sla_violations su d clk s m r =
     (case check_uptime_sla su d clk s m r of
        Inl e \<Rightarrow> Inl e
      | Inr s1 \<Rightarrow> check_response_time_sla su d clk s1 m r)"

definition process_monitor_result :: "monitor_setup \<Rightarrow> deliver \<Rightarrow> clock \<Rightarrow> monitor_state \<Rightarrow> string \<Rightarrow> MonitorResult \<Rightarrow> outcome" where
  "process_monitor_result su d clk s m r =
     (case (if status r \<in> set [DOWN, DEGRADED] then handle_incident su d clk s m r
            else (case current_incidents s m of
                    Some inc \<Rightarrow> resolve_incident su d s m r
                  | None \<Rightarrow> Inr s)) of
        Inl e \<Rightarrow> Inl e
      | Inr s1 \<Rightarrow>
          (case check_sla_violations su d clk s1 m r of
             Inl e \<Rightarrow> Inl e
           | Inr s2 \<Rightarrow> Inr (update_statistics s2 m r)))"

text \<open>Feeding a sequence of results to \<open>_process_monitor_result\<close>; an exception ends the run.\<close>

fun process_all :: "monitor_setup \<Rightarrow> deliver \<Rightarrow> monitor_state \<Rightarrow> (clock \<times> string \<times> MonitorResult) list \<Rightarrow> outcome" where
  "process_all su d s [] = Inr s"
| "process_all su d s ((clk, m, r) # xs) =
     (case process_monitor_result su d clk s m r of
        Inl e \<Rightarrow> Inl e
      | Inr s1 \<Rightarrow> process_all su d s1 xs)"

text \<open>
  The monitoring loop stores a result in \<open>self.monitor_results\<close> before it processes it.
\<close>

definition record_result :: "monitor_state \<Rightarrow> string \<Rightarrow> MonitorResult \<Rightarrow> monitor_state" where
  "record_result s m r =
     s\<lparr>monitor_results :=
          (monitor_results s)(m \<mapsto> (case monitor_results s m of None \<Rightarrow> [] | Some rs \<Rightarrow> rs) @ [r])\<rparr>"

text \<open>The default thresholds of \<open>_load_sla_thresholds\<close>; only two of the keys are ever read.\<close>

definition default_sla_thresholds :: "string \<Rightarrow> SLAThreshold" where
  "default_sla_thresholds k =
     (if k = ''uptime'' then
        \<lparr>sla_name = ''Service Uptime'', target_value = 99.9, measurement_unit = ''percentage'',
         measurement_period = ''monthly'', violation_threshold = 99.8, compensation_rate = 10\<rparr>
      else if k = ''api_response_time'' then
        \<lparr>sla_name = ''API Response Time'', target_value = 200, measurement_unit = ''milliseconds'',
         measurement_period = ''daily'', violation_threshold = 500, compensation_rate = 5\<rparr>
      else
        \<lparr>sla_name = ''Harmonic Processing Time'', target_value = 100,
         measurement_unit = ''milliseconds'', measurement_period = ''hourly'',
         violation_threshold = 250, compensation_rate = 2\<rparr>)"

section \<open>Probing: \<open>_check_monitor\<close>\<close>

text \<open>
  What the HTTP request did is outside the program: a response with its status code and
  the measured \<open>response_time\<close> in milliseconds, \<open>asyncio.TimeoutError\<close>, or another
  exception with its text. \<open>str.upper\<close> and \<open>str.lower\<close> are modelled on ASCII letters.
\<close>

datatype http_outcome = Response int real | TimeoutError | OtherException string

definition upper_char :: "char \<Rightarrow> char" where
  "upper_char c =
     (if 97 \<le> (of_char c :: nat) \<and> (of_char c :: nat) \<le> 122 then char_of ((of_char c :: nat) - 32) else c)"

definition lower_char :: "char \<Rightarrow> char" where
  "lower_char c =
     (if 65 \<le> (of_char c :: nat) \<and> (of_char c :: nat) \<le> 90 then char_of ((of_char c :: nat) + 32) else c)"

text \<open>\<open>sub in s\<close> for strings.\<close>

fun contains :: "string \<Rightarrow> string \<Rightarrow> bool" where
  "contains sub [] = (sub = [])"
| "contains sub (c # cs) = (take (length sub) (c # cs) = sub \<or> contains sub cs)"

definition down_result :: "int \<Rightarrow> string \<Rightarrow> MonitorResult" where
  "down_result now msg =
     \<lparr>timestamp = now, status = DOWN, response_time = None, status_code = None,
      error_message = Some msg, additional_metrics = []\<rparr>"

text \<open>
  \<open>harmonic_metrics\<close> is what \<open>_collect_harmonic_metrics\<close> returns, \<open>now\<close> is
  \<open>datetime.utcnow()\<close>. A method other than GET and POST falls off the end of the
  function, which then returns \<open>None\<close>. A missing \<open>url\<close> raises \<open>KeyError\<close> inside the
  \<open>try\<close>; \<open>str(KeyError('url'))\<close> is the key in single quotes.
\<close>

definition check_monitor :: "monitor_config \<Rightarrow> http_outcome \<Rightarrow> (string \<times> real) list \<Rightarrow> int \<Rightarrow> MonitorResult option" where
  "check_monitor config outcome harmonic_metrics now =
     (case url config of
        None \<Rightarrow> Some (down_result now ([CHR 0x27] @ ''url'' @ [CHR 0x27]))
      | Some u \<Rightarrow>
          (let meth = map upper_char (case http_method config of None \<Rightarrow> ''GET'' | Some x \<Rightarrow> x);
               expected = (case expected_status config of None \<Rightarrow> 200 | Some e \<Rightarrow> e);
               expected_rt = (case expected_response_time config of None \<Rightarrow> 5000 | Some l \<Rightarrow> l)
           in if meth = ''GET'' then
                (case outcome of
                   Response c t \<Rightarrow>
                     Some \<lparr>timestamp = now,
                           status = (if c = expected \<and> t \<le> expected_rt then UP
                                     else if c = expected then DEGRADED
                                     else DOWN),
                           response_time = Some t,
                           status_code = Some c,
                           error_message = None,
                           additional_metrics =
                             (if contains ''harmonic'' (map lower_char u) then harmonic_metrics else [])\<rparr>
                 | TimeoutError \<Rightarrow> Some (down_result now ''Request timeout'')
                 | OtherException e \<Rightarrow> Some (down_result now e))
              else if meth = ''POST'' then
                (case outcome of
                   Response c t \<Rightarrow>
                     Some \<lparr>timestamp = now,
                           status = (if c = expected then UP else DOWN),
                           response_time = Some t,
                           status_code = Some c,
                           error_message = None,
                           additional_metrics = []\<rparr>
                 | TimeoutError \<Rightarrow> Some (down_result now ''Request timeout'')
                 | OtherException e \<Rightarrow> Some (down_result now e))
              else None))"

section \<open>Reports: \<open>generate_sla_report\<close>\<close>

record monitor_report =
  uptime_percentage :: real
  sla_target :: real
  sla_compliant :: bool
  rep_total_checks :: int
  rep_failed_checks :: int
  rep_avg_response_time :: "real option"
  response_time_sla_target :: "real option"
  response_time_compliant :: "bool option"

record overall =
  compliant :: bool
  violation_count :: int
  compensation_owed :: real

record sla_report =
  report_period :: string
  generated_at :: int
  rep_monitors :: "(string \<times> monitor_report) list"
  rep_sla_violations :: "violation list"
  overall_compliance :: overall

definition monitor_report_of :: "monitor_setup \<Rightarrow> monitor_state \<Rightarrow> int \<Rightarrow> string \<Rightarrow> string \<Rightarrow> monitor_report" where
  "monitor_report_of su s now period m =
     (let uptime = calculate_uptime_percentage s now m period;
          perf = performance_stats s m
      in \<lparr>uptime_percentage = uptime,
          sla_target = target_value (sla_thresholds su ''uptime''),
          sla_compliant = (uptime \<ge> target_value (sla_thresholds su ''uptime'')),
          rep_total_checks = (case uptime_stats s m of None \<Rightarrow> 0 | Some u \<Rightarrow> total_checks u),
          rep_failed_checks = (case uptime_stats s m of None \<Rightarrow> 0 | Some u \<Rightarrow> failed_checks u),
          rep_avg_response_time = map_option avg_response_time perf,
          response_time_sla_target =
            map_option (\<lambda>p. target_value (sla_thresholds su ''api_response_time'')) perf,
          response_time_compliant =
            map_option (\<lambda>p. avg_response_time p
                             \<le> target_value (sla_thresholds su ''api_response_time'')) perf\<rparr>)"

text \<open>
  \<open>self.monitors\<close> is a dictionary: its keys, in insertion order, are the first
  components of the association list. \<open>now\<close> is \<open>datetime.utcnow()\<close>.
\<close>

definition generate_sla_report :: "monitor_setup \<Rightarrow> monitor_state \<Rightarrow> int \<Rightarrow> string \<Rightarrow> sla_report" where
  "generate_sla_report su s now period =
     (let reports = map (\<lambda>m. (m, monitor_report_of su s now period m)) (map fst (monitors su));
          period_start = now - days (if period = ''monthly'' then 30 else 1);
          listed = filter (\<lambda>v. v_timestamp v \<ge> period_start) (sla_violations s);
          all_monitors_compliant = list_all (\<lambda>(m, rep). sla_compliant rep) reports
      in \<lparr>report_period = period,
          generated_at = now,
          rep_monitors = reports,
          rep_sla_violations = listed,
          overall_compliance =
            \<lparr>compliant = all_monitors_compliant,
             violation_count = int (length listed),
             compensation_owed = sum_list (map v_compensation_rate listed)\<rparr>\<rparr>)"

section \<open>Vocabulary of the properties\<close>

text \<open>The results fed for monitor \<open>m\<close> in a sequence of (monitor name, result) pairs.\<close>

definition checks_of :: "string \<Rightarrow> (string \<times> MonitorResult) list \<Rightarrow> MonitorResult list" where
  "checks_of m xs = map snd (filter (\<lambda>x. fst x = m) xs)"

definition stat_or_new :: "uptime_stat option \<Rightarrow> uptime_stat" where
  "stat_or_new x = (case x of None \<Rightarrow> new_uptime_stat | Some u \<Rightarrow> u)"

definition perf_or_new :: "perf_stat option \<Rightarrow> perf_stat" where
  "perf_or_new x = (case x of None \<Rightarrow> new_perf_stat | Some p \<Rightarrow> p)"

text \<open>The latencies that \<open>_update_statistics\<close> records for monitor \<open>m\<close>, in order.\<close>

definition sample_of :: "MonitorResult \<Rightarrow> real list" where
  "sample_of r = (case response_time r of None \<Rightarrow> [] | Some t \<Rightarrow> if t = 0 then [] else [t])"

definition samples_of :: "string \<Rightarrow> (string \<times> MonitorResult) list \<Rightarrow> real list" where
  "samples_of m xs = concat (map sample_of (checks_of m xs))"

text \<open>Every channel dictionary has the key \<open>type\<close>.\<close>

definition channels_typed :: "channel list \<Rightarrow> bool" where
  "channels_typed cs = list_all (\<lambda>c. c ''type'' \<noteq> None) cs"

definition channel_kind :: "channel \<Rightarrow> string" where
  "channel_kind c = (case c ''type'' of None \<Rightarrow> [] | Some t \<Rightarrow> t)"

text \<open>The last result fed for monitor \<open>m\<close> in a run of \<open>process_all\<close>, if any.\<close>

fun last_result :: "string \<Rightarrow> (clock \<times> string \<times> MonitorResult) list \<Rightarrow> MonitorResult option" where
  "last_result m [] = None"
| "last_result m ((clk, n, r) # xs) =
     (case last_result m xs of
        Some r' \<Rightarrow> Some r'
      | None \<Rightarrow> if n = m then Some r else None)"

definition opens_incident :: "MonitorStatus \<Rightarrow> bool" where
  "opens_incident st = (st = DOWN \<or> st = DEGRADED)"

text \<open>Transports for the examples: one that always returns, one where only Slack works.\<close>

definition deliver_all :: deliver where
  "deliver_all kind c a = True"

definition deliver_slack_only :: deliver where
  "deliver_slack_only kind c a = (kind = ''slack'')"

definition default_setup :: monitor_setup where
  "default_setup =
     \<lparr>monitors = [(''api'', \<lparr>url = Some ''http://api.local/health'', http_method = None,
                              expected_status = None, expected_response_time = None\<rparr>)],
      sla_thresholds = default_sla_thresholds,
      alert_channels = [[''type'' \<mapsto> ''email''], [''type'' \<mapsto> ''slack'']]\<rparr>"

text \<open>A result with the given time, status and latency, for the examples.\<close>

definition result_at :: "int \<Rightarrow> MonitorStatus \<Rightarrow> real option \<Rightarrow> MonitorResult" where
  "result_at t st lat =
     \<lparr>timestamp = t, status = st, response_time = lat, status_code = None,
      error_message = None, additional_metrics = []\<rparr>"

text \<open>
  A configuration whose thresholds were overridden (\<open>sla_thresholds\<close> in the
  configuration sets any attribute of a default threshold) with a negative
  \<open>violation_threshold\<close>.
\<close>

definition negative_threshold_setup :: monitor_setup where
  "negative_threshold_setup =
     default_setup\<lparr>sla_thresholds :=
       (\<lambda>k. (default_sla_thresholds k)\<lparr>violation_threshold := - 1\<rparr>)\<rparr>"

text \<open>The alert that goes with a latency violation.\<close>

definition latency_alert :: "SLAThreshold \<Rightarrow> clock \<Rightarrow> string \<Rightarrow> MonitorResult \<Rightarrow> real \<Rightarrow> alert_data" where
  "latency_alert th clk m r t =
     \<lparr>severity = WARNING, a_incident_id = violation_id (response_time_violation th clk m r t)\<rparr>"

text \<open>
  The state after one round of the monitoring loop in which the monitor \<open>api\<close> answered
  with status UP after 300 ms: the result is stored and the statistics are updated
  (nothing else changes for such a result under the default thresholds).
\<close>

definition slow_state :: monitor_state where
  "slow_state =
     update_statistics (record_result initial_state ''api'' (result_at 1000 UP (Some 300)))
       ''api'' (result_at 1000 UP (Some 300))"

text \<open>
  What one processed result does to the dictionary of open incidents, and what a
  sequence of them does.
\<close>

definition incidents_after :: "clock \<Rightarrow> (string \<rightharpoonup> incident) \<Rightarrow> string \<Rightarrow> MonitorResult \<Rightarrow> (string \<rightharpoonup> incident)" where
  "incidents_after clk inc m r =
     (if opens_incident (status r) then
        (case inc m of
           Some old \<Rightarrow> inc
         | None \<Rightarrow> inc(m \<mapsto> (new_incident clk m r)\<lparr>alert_sent := True\<rparr>))
      else inc(m := None))"

fun incidents_run :: "(string \<rightharpoonup> incident) \<Rightarrow> (clock \<times> string \<times> MonitorResult) list \<Rightarrow> (string \<rightharpoonup> incident)" where
  "incidents_run inc [] = inc"
| "incidents_run inc ((clk, m, r) # xs) = incidents_run (incidents_after clk inc m r) xs"

text \<open>The identity of the open incident of a monitor after a run, if the run returned.\<close>

definition open_incident_id :: "outcome \<Rightarrow> string \<Rightarrow> error + string option" where
  "open_incident_id x m =
     (case x of
        Inl (e, s) \<Rightarrow> Inl e
      | Inr s \<Rightarrow> Inr (map_option incident_id (current_incidents s m)))"

text \<open>The exception that left a call, if any, and the state of the monitor after the call.\<close>

definition raised :: "outcome \<Rightarrow> error option" where
  "raised x = (case x of Inl (e, s) \<Rightarrow> Some e | Inr s \<Rightarrow> None)"

definition state_after :: "outcome \<Rightarrow> monitor_state" where
  "state_after x = (case x of Inl (e, s) \<Rightarrow> s | Inr s \<Rightarrow> s)"

text \<open>
  A configuration whose second alert channel has no \<open>type\<close> entry, between two
  channels that have one.
\<close>

definition untyped_setup :: monitor_setup where
  "untyped_setup =
     default_setup\<lparr>alert_channels :=
       [[''type'' \<mapsto> ''email''], [''webhook_url'' \<mapsto> ''https://hooks.local/ops''],
        [''type'' \<mapsto> ''slack'']]\<rparr>"

text \<open>
  Stored results for the examples of the evaluation window. Read at time 10000 s, the
  hour before starts at 6400 s: monitor \<open>api\<close> has one result before that, one exactly
  at the start and three after it; monitor \<open>db\<close> has one result, before the hour.
\<close>

definition window_state :: monitor_state where
  "window_state =
     record_result (record_result (record_result (record_result (record_result (record_result
       initial_state
       ''api'' (result_at 1000000000 DOWN None))
       ''db'' (result_at 1000000000 DOWN None))
       ''api'' (result_at 6400000000 UP (Some 150)))
       ''api'' (result_at 7000000000 DOWN None))
       ''api'' (result_at 8000000000 UP (Some 150)))
       ''api'' (result_at 9000000000 UP (Some 180))"

text \<open>One result with latency 1 ms followed by a thousand results with latency 5 ms.\<close>

definition eviction_input :: "(string \<times> MonitorResult) list" where
  "eviction_input =
     (''api'', result_at 0 UP (Some 1)) # replicate 1000 (''api'', result_at 1 UP (Some 5))"

section \<open>Properties of the statistics store\<close>

lemma update_uptime_counters:
  "total_checks (update_uptime u r) = total_checks u + 1 \<and>
   successful_checks (update_uptime u r) = successful_checks u + (if status r = UP then 1 else 0) \<and>
   failed_checks (update_uptime u r) = failed_checks u + (if status r = UP then 0 else 1)"
  by (simp add: update_uptime_def Let_def)

lemma uptime_stats_update_statistics:
  "uptime_stats (update_statistics s m r) =
     (uptime_stats s)(m \<mapsto> update_uptime
        (case uptime_stats s m of None \<Rightarrow> new_uptime_stat | Some u \<Rightarrow> u) r)"
  by (simp add: update_statistics_def Let_def)

lemma checks_of_simps:
  "checks_of m [] = []"
  "checks_of m ((n, r) # xs) = (if n = m then r # checks_of m xs else checks_of m xs)"
  by (simp_all add: checks_of_def)

lemma uptime_stats_all:
  "uptime_stats (update_statistics_all s xs) m =
     (if checks_of m xs = [] then uptime_stats s m
      else Some (foldl update_uptime (stat_or_new (uptime_stats s m)) (checks_of m xs)))"
proof (induction xs arbitrary: s)
  case Nil
  then show ?case by (simp add: checks_of_simps)
next
  case (Cons x xs)
  obtain n r where x: "x = (n, r)" by (cases x)
  show ?case
    by (simp add: x Cons.IH checks_of_simps uptime_stats_update_statistics stat_or_new_def)
qed

lemma foldl_update_uptime_counters:
  "total_checks (foldl update_uptime u rs) = total_checks u + int (length rs) \<and>
   successful_checks (foldl update_uptime u rs) =
     successful_checks u + int (length (filter (\<lambda>r. status r = UP) rs)) \<and>
   failed_checks (foldl update_uptime u rs) =
     failed_checks u + int (length (filter (\<lambda>r. status r \<noteq> UP) rs))"
proof (induction rs arbitrary: u)
  case Nil
  show ?case by simp
next
  case (Cons r rs)
  show ?case using update_uptime_counters [of u r] by (simp add: Cons.IH)
qed

text \<open>
  Claim C9. Starting from a monitor without statistics, after any sequence of calls of
  \<open>_update_statistics\<close> a monitor has counters if and only if a result was fed for it,
  and then \<open>total_checks = successful_checks + failed_checks\<close>, where \<open>total_checks\<close>
  is the number of results fed for the monitor, \<open>successful_checks\<close> the number of those
  with status UP and \<open>failed_checks\<close> the number of those with any other status.
\<close>

theorem counters_balance:
  "(case uptime_stats (update_statistics_all initial_state xs) m of
      None \<Rightarrow> checks_of m xs = []
    | Some u \<Rightarrow>
        total_checks u = successful_checks u + failed_checks u \<and>
        total_checks u = int (length (checks_of m xs)) \<and>
        successful_checks u = int (length (filter (\<lambda>r. status r = UP) (checks_of m xs))) \<and>
        failed_checks u = int (length (filter (\<lambda>r. status r \<noteq> UP) (checks_of m xs))))"
proof (cases "checks_of m xs = []")
  case True
  then show ?thesis by (simp add: uptime_stats_all initial_state_def)
next
  case False
  have len: "length (checks_of m xs) =
      length (filter (\<lambda>r. status r = UP) (checks_of m xs)) +
      length (filter (\<lambda>r. status r \<noteq> UP) (checks_of m xs))"
    using sum_length_filter_compl [of "\<lambda>r. status r = UP" "checks_of m xs"] by simp
  show ?thesis
    using False len foldl_update_uptime_counters [of new_uptime_stat "checks_of m xs"]
    by (simp add: uptime_stats_all initial_state_def stat_or_new_def new_uptime_stat_def)
qed

theorem counters_balance_witness:
  "\<exists>u. uptime_stats (update_statistics_all initial_state
          [(''api'', result_at 1 UP (Some 150)), (''db'', result_at 2 UP None),
           (''api'', result_at 3 DEGRADED (Some 900)), (''api'', result_at 4 DOWN None)]) ''api'' = Some u \<and>
        total_checks u = 3 \<and> successful_checks u = 1 \<and> failed_checks u = 2"
  using counters_balance [where m = "''api''" and xs = "[(''api'', result_at 1 UP (Some 150)),
           (''db'', result_at 2 UP None), (''api'', result_at 3 DEGRADED (Some 900)),
           (''api'', result_at 4 DOWN None)]"]
  by (simp add: checks_of_simps result_at_def uptime_stats_all split: option.splits)

section \<open>Uptime percentage\<close>

text \<open>
  Claim C3. The uptime percentage of a monitor is \<open>K / N * 100\<close>, where \<open>N\<close> is the
  number of the monitor's stored results in the evaluation window and \<open>K\<close> the number
  of those with status UP; with no result in the window (also for a monitor that has
  no recorded results at all, or only older ones) it is exactly 100. The window is the
  results whose timestamp is not older than the span of the period before the time of
  the evaluation: one day for \<open>daily\<close>, thirty days for \<open>monthly\<close>, one hour for
  \<open>hourly\<close> and for any other period (the spans below are in microseconds).
\<close>

theorem uptime_percentage_over_window:
  "calculate_uptime_percentage s now m period =
     (let span = (if period = ''daily'' then 86400000000
                  else if period = ''monthly'' then 2592000000000
                  else 3600000000);
          recorded = (case monitor_results s m of None \<Rightarrow> [] | Some rs \<Rightarrow> rs);
          in_window = filter (\<lambda>r. now - span \<le> timestamp r) recorded
      in if in_window = [] then 100
         else real (length (filter (\<lambda>r. status r = UP) in_window))
              / real (length in_window) * 100)"
  by (simp add: calculate_uptime_percentage_def window_start_def hours_def days_def Let_def
      split: option.splits)

lemma window_state_results:
  "monitor_results window_state ''api'' =
     Some [result_at 1000000000 DOWN None, result_at 6400000000 UP (Some 150),
           result_at 7000000000 DOWN None, result_at 8000000000 UP (Some 150),
           result_at 9000000000 UP (Some 180)]"
  "monitor_results window_state ''db'' = Some [result_at 1000000000 DOWN None]"
  "monitor_results window_state ''web'' = None"
  by (simp_all add: window_state_def record_result_def initial_state_def)

theorem uptime_percentage_over_window_witness:
  "calculate_uptime_percentage window_state 10000000000 ''api'' ''hourly'' = 75 \<and>
   calculate_uptime_percentage window_state 10000000000 ''api'' ''daily'' = 60 \<and>
   calculate_uptime_percentage window_state 10000000000 ''db'' ''hourly'' = 100 \<and>
   calculate_uptime_percentage window_state 10000000000 ''web'' ''hourly'' = 100"
  using uptime_percentage_over_window [of window_state 10000000000 "''api''" "''hourly''"]
    uptime_percentage_over_window [of window_state 10000000000 "''api''" "''daily''"]
    uptime_percentage_over_window [of window_state 10000000000 "''db''" "''hourly''"]
    uptime_percentage_over_window [of window_state 10000000000 "''web''" "''hourly''"]
  by (simp add: window_state_results result_at_def)

section \<open>Alert dispatch\<close>

lemma send_alert_typed:
  "channels_typed cs \<Longrightarrow>
   send_alert d cs a =
     Inr (map (\<lambda>c. (c, d (channel_kind c) c a))
            (filter (\<lambda>c. known_channel_type (channel_kind c)) cs))"
  by (induction cs) (auto simp: channels_typed_def channel_kind_def)

lemma call_send_alert_typed:
  "channels_typed cs \<Longrightarrow> call_send_alert d cs a s = Inr (s\<lparr>alerts := alerts s @ [a]\<rparr>)"
  by (simp add: call_send_alert_def send_alert_typed)

text \<open>
  Claim C7. With three configured channels of which the second has no \<open>type\<close> entry,
  \<open>_send_alert\<close> does not return: the failure of the first channel (e-mail) is caught,
  the \<open>KeyError\<close> of the second channel is caught and raised again by the log line of
  the handler, it leaves the function, and the third channel (Slack), whose transport
  would have delivered, is never called.
\<close>

theorem send_alert_untyped_channel_raises:
  "send_alert deliver_slack_only
     [[''type'' \<mapsto> ''email''], [''webhook_url'' \<mapsto> ''https://hooks.local/ops''],
      [''type'' \<mapsto> ''slack'']]
     \<lparr>severity = CRITICAL, a_incident_id = ''INC_1000_api''\<rparr> =
   Inl (KeyError ''type'', [([''type'' \<mapsto> ''email''], False)])"
  by (simp add: known_channel_type_def deliver_slack_only_def)

section \<open>A latency of zero\<close>

lemma check_response_time_sla_zero:
  "check_response_time_sla su d clk s m (r\<lparr>response_time := Some 0\<rparr>) = Inr s"
  "check_response_time_sla su d clk s m (r\<lparr>response_time := None\<rparr>) = Inr s"
  by (simp_all add: check_response_time_sla_def truthy_def)

lemma uptime_violation_latency_irrelevant:
  "uptime_violation th clk m (r\<lparr>response_time := x\<rparr>) pct = uptime_violation th clk m r pct"
  by (simp add: uptime_violation_def)

lemma new_incident_latency_irrelevant:
  "new_incident clk m (r\<lparr>response_time := x\<rparr>) = new_incident clk m r"
  by (simp add: new_incident_def)

lemma check_uptime_sla_latency_irrelevant:
  "check_uptime_sla su d clk s m (r\<lparr>response_time := x\<rparr>) = check_uptime_sla su d clk s m r"
  by (simp add: check_uptime_sla_def uptime_violation_latency_irrelevant Let_def)

lemma check_sla_violations_zero:
  "check_sla_violations su d clk s m (r\<lparr>response_time := Some 0\<rparr>) =
     check_sla_violations su d clk s m (r\<lparr>response_time := None\<rparr>)"
  by (simp add: check_sla_violations_def check_uptime_sla_latency_irrelevant
      check_response_time_sla_zero split: sum.splits)

lemma update_statistics_zero:
  "update_statistics s m (r\<lparr>response_time := Some 0\<rparr>) =
     update_statistics s m (r\<lparr>response_time := None\<rparr>)"
  by (simp add: update_statistics_def truthy_def update_uptime_def)

lemma handle_incident_latency_irrelevant:
  "handle_incident su d clk s m (r\<lparr>response_time := x\<rparr>) = handle_incident su d clk s m r"
  by (simp add: handle_incident_def new_incident_latency_irrelevant Let_def split: option.splits)

lemma resolve_incident_latency_irrelevant:
  "resolve_incident su d s m (r\<lparr>response_time := x\<rparr>) = resolve_incident su d s m r"
  by (simp add: resolve_incident_def)

text \<open>
  Claim C10. A result whose latency is exactly 0.0 is treated as a result without
  latency: the SLA checks do the same as for latency \<open>None\<close>, the latency check leaves
  the state as it is (no violation, no alert), the statistics update is the same as for
  \<open>None\<close> and leaves the latency statistics of the monitor as they were, and so the whole
  of \<open>_process_monitor_result\<close> does the same in both cases.
\<close>

theorem zero_latency_is_no_latency:
  "check_sla_violations su d clk s m (r\<lparr>response_time := Some 0\<rparr>) =
     check_sla_violations su d clk s m (r\<lparr>response_time := None\<rparr>) \<and>
   check_response_time_sla su d clk s m (r\<lparr>response_time := Some 0\<rparr>) = Inr s \<and>
   update_statistics s m (r\<lparr>response_time := Some 0\<rparr>) =
     update_statistics s m (r\<lparr>response_time := None\<rparr>) \<and>
   performance_stats (update_statistics s m (r\<lparr>response_time := Some 0\<rparr>)) m =
     Some (perf_or_new (performance_stats s m)) \<and>
   process_monitor_result su d clk s m (r\<lparr>response_time := Some 0\<rparr>) =
     process_monitor_result su d clk s m (r\<lparr>response_time := None\<rparr>)"
proof -
  have perf: "performance_stats (update_statistics s m (r\<lparr>response_time := Some 0\<rparr>)) m =
      Some (perf_or_new (performance_stats s m))"
    by (simp add: update_statistics_def truthy_def perf_or_new_def)
  have proc: "process_monitor_result su d clk s m (r\<lparr>response_time := Some 0\<rparr>) =
      process_monitor_result su d clk s m (r\<lparr>response_time := None\<rparr>)"
    by (simp add: process_monitor_result_def handle_incident_latency_irrelevant
        resolve_incident_latency_irrelevant check_sla_violations_zero update_statistics_zero
        cong: sum.case_cong option.case_cong)
  show ?thesis
    using perf proc
    by (simp add: check_sla_violations_zero check_response_time_sla_zero update_statistics_zero)
qed

section \<open>Latency violations\<close>

lemma check_uptime_sla_typed:
  assumes "channels_typed (alert_channels su)"
  shows "\<exists>s'. check_uptime_sla su d clk s m r = Inr s' \<and>
     filter (\<lambda>v. sla_type v = ''response_time'') (sla_violations s') =
       filter (\<lambda>v. sla_type v = ''response_time'') (sla_violations s) \<and>
     filter (\<lambda>a. severity a = WARNING) (alerts s') = filter (\<lambda>a. severity a = WARNING) (alerts s)"
  using assms
  by (simp add: check_uptime_sla_def call_send_alert_typed Let_def uptime_violation_def)

lemma check_response_time_sla_typed:
  assumes "channels_typed (alert_channels su)" and "response_time r = Some t"
  shows "check_response_time_sla su d clk s m r =
     Inr (if t \<noteq> 0 \<and> t > violation_threshold (sla_thresholds su ''api_response_time'')
          then s\<lparr>sla_violations := sla_violations s @
                    [response_time_violation (sla_thresholds su ''api_response_time'') clk m r t],
                 alerts := alerts s @
                    [latency_alert (sla_thresholds su ''api_response_time'') clk m r t]\<rparr>
          else s)"
  using assms
  by (simp add: check_response_time_sla_def call_send_alert_typed Let_def truthy_def latency_alert_def)

text \<open>
  Claim C4, as amended. When every configured alert channel carries its \<open>type\<close> (so
  that no alert dispatch raises), then for a processed result that carries a latency
  \<open>t\<close>, \<open>_check_sla_violations\<close> returns, and it adds a latency violation, and sends
  its WARNING alert, if and only if \<open>t\<close> is not zero and strictly greater than the
  \<open>violation_threshold\<close> of the latency SLA; it then adds exactly one. A latency equal
  to the threshold adds none.
\<close>

theorem latency_violation_iff:
  assumes "channels_typed (alert_channels su)" and "response_time r = Some t"
  shows "\<exists>s'. check_sla_violations su d clk s m r = Inr s' \<and>
     filter (\<lambda>v. sla_type v = ''response_time'') (sla_violations s') =
       filter (\<lambda>v. sla_type v = ''response_time'') (sla_violations s) @
       (if t \<noteq> 0 \<and> t > violation_threshold (sla_thresholds su ''api_response_time'')
        then [response_time_violation (sla_thresholds su ''api_response_time'') clk m r t] else []) \<and>
     filter (\<lambda>a. severity a = WARNING) (alerts s') =
       filter (\<lambda>a. severity a = WARNING) (alerts s) @
       (if t \<noteq> 0 \<and> t > violation_threshold (sla_thresholds su ''api_response_time'')
        then [latency_alert (sla_thresholds su ''api_response_time'') clk m r t] else [])"
proof -
  obtain s1 where s1: "check_uptime_sla su d clk s m r = Inr s1"
    and v1: "filter (\<lambda>v. sla_type v = ''response_time'') (sla_violations s1) =
       filter (\<lambda>v. sla_type v = ''response_time'') (sla_violations s)"
    and a1: "filter (\<lambda>a. severity a = WARNING) (alerts s1) = filter (\<lambda>a. severity a = WARNING) (alerts s)"
    using check_uptime_sla_typed [OF assms(1)] by blast
  show ?thesis
    using v1 a1
    by (simp add: check_sla_violations_def s1 check_response_time_sla_typed [OF assms]
        response_time_violation_def latency_alert_def)
qed

theorem latency_violation_iff_witness:
  "channels_typed (alert_channels default_setup) \<and>
   response_time (result_at 1000 UP (Some 500)) = Some 500 \<and>
   check_sla_violations default_setup deliver_slack_only \<lparr>secs = 1, utcnow = 1000\<rparr>
     initial_state ''api'' (result_at 1000 UP (Some 500)) = Inr initial_state \<and>
   (\<exists>s'. check_sla_violations default_setup deliver_slack_only \<lparr>secs = 1, utcnow = 1000\<rparr>
     initial_state ''api'' (result_at 1000 UP (Some 501)) = Inr s' \<and>
     map violation_id (filter (\<lambda>v. sla_type v = ''response_time'') (sla_violations s')) =
       [''SLA_1_api_response_time''] \<and>
     filter (\<lambda>a. severity a = WARNING) (alerts s') =
       [\<lparr>severity = WARNING, a_incident_id = ''SLA_1_api_response_time''\<rparr>])"
proof -
  have t: "channels_typed (alert_channels default_setup)"
    by (simp add: default_setup_def channels_typed_def)
  have a: "response_time (result_at 1000 UP (Some 500)) = Some 500"
    by (simp add: result_at_def)
  have b: "response_time (result_at 1000 UP (Some 501)) = Some 501"
    by (simp add: result_at_def)
  have th: "violation_threshold (sla_thresholds default_setup ''api_response_time'') = 500"
    by (simp add: default_setup_def default_sla_thresholds_def)
  have eq: "check_sla_violations default_setup deliver_slack_only \<lparr>secs = 1, utcnow = 1000\<rparr>
     initial_state ''api'' (result_at 1000 UP (Some 500)) = Inr initial_state"
    using t
    by (simp add: check_sla_violations_def check_uptime_sla_def check_response_time_sla_def
        result_at_def truthy_def th)
  show ?thesis
    using t a eq
      latency_violation_iff [OF t b, of deliver_slack_only "\<lparr>secs = 1, utcnow = 1000\<rparr>" initial_state "''api''"]
    by (auto simp: th initial_state_def response_time_violation_def latency_alert_def
        str_nat.simps digit_char_def char_of_def bit_0)
qed

text \<open>
  Claim C4 as stated fails: a latency of 0.0 with a negative \<open>violation_threshold\<close> is
  strictly greater than the threshold, and no violation is emitted.
\<close>

theorem latency_violation_counterexample:
  "response_time (result_at 1000 UP (Some 0)) = Some 0 \<and>
   (0::real) > violation_threshold (sla_thresholds negative_threshold_setup ''api_response_time'') \<and>
   check_sla_violations negative_threshold_setup deliver_all \<lparr>secs = 1, utcnow = 1000\<rparr>
     initial_state ''api'' (result_at 1000 UP (Some 0)) = Inr initial_state"
  by (simp add: result_at_def negative_threshold_setup_def check_sla_violations_def
      check_uptime_sla_def check_response_time_sla_def truthy_def)

section \<open>Classification of a probe\<close>

text \<open>
  Claim C2. The same response (expected code 200, 6000 ms against an expected 5000 ms)
  is classified DEGRADED on the GET path and UP on the POST path: the POST path does
  not look at the latency.
\<close>

theorem check_monitor_post_ignores_latency:
  "map_option status (check_monitor
      \<lparr>url = Some ''http://api.local/submit'', http_method = Some ''POST'',
       expected_status = Some 200, expected_response_time = Some 5000\<rparr>
      (Response 200 6000) [] 0) = Some UP \<and>
   map_option status (check_monitor
      \<lparr>url = Some ''http://api.local/submit'', http_method = Some ''GET'',
       expected_status = Some 200, expected_response_time = Some 5000\<rparr>
      (Response 200 6000) [] 0) = Some DEGRADED"
  by (simp add: check_monitor_def upper_char_def Let_def)

section \<open>Reports\<close>

text \<open>
  Claim C5, as amended. In every report the overall compliance flag is the conjunction
  of the uptime compliance flags \<open>sla_compliant\<close> of the monitors (the latency flags
  \<open>response_time_compliant\<close> take no part), and the compensation owed is the sum of the
  compensation rates over the list of violations in the report, which are the recorded
  violations of the period, each one counted as often as it is recorded.
\<close>

theorem report_overall_compliance:
  "compliant (overall_compliance (generate_sla_report su s now period)) =
     list_all (\<lambda>x. sla_compliant (snd x)) (rep_monitors (generate_sla_report su s now period)) \<and>
   compensation_owed (overall_compliance (generate_sla_report su s now period)) =
     sum_list (map v_compensation_rate (rep_sla_violations (generate_sla_report su s now period))) \<and>
   rep_sla_violations (generate_sla_report su s now period) =
     filter (\<lambda>v. v_timestamp v \<ge> now - days (if period = ''monthly'' then 30 else 1)) (sla_violations s)"
  by (simp add: generate_sla_report_def Let_def case_prod_unfold)

text \<open>
  Claim C5 as stated fails: a monitor that is compliant in uptime and not in latency
  leaves the report compliant overall.
\<close>

theorem report_overall_compliance_counterexample:
  "compliant (overall_compliance (generate_sla_report default_setup slow_state 2000 ''monthly'')) \<and>
   map (\<lambda>x. (fst x, sla_compliant (snd x), response_time_compliant (snd x)))
     (rep_monitors (generate_sla_report default_setup slow_state 2000 ''monthly'')) =
     [(''api'', True, Some False)]"
  by (simp add: generate_sla_report_def monitor_report_of_def Let_def default_setup_def
      default_sla_thresholds_def slow_state_def update_statistics_def record_result_def
      initial_state_def result_at_def truthy_def update_perf_def new_perf_stat_def keep_last_def
      calculate_uptime_percentage_def window_start_def days_def)

theorem report_overall_compliance_example:
  "compensation_owed (overall_compliance (generate_sla_report default_setup
      (initial_state\<lparr>sla_violations :=
         [response_time_violation (default_sla_thresholds ''api_response_time'')
            \<lparr>secs = 1, utcnow = 1000\<rparr> ''api'' (result_at 1000 UP (Some 600)) 600,
          response_time_violation (default_sla_thresholds ''api_response_time'')
            \<lparr>secs = 1, utcnow = 1000\<rparr> ''api'' (result_at 1000 UP (Some 600)) 600]\<rparr>)
      2000 ''monthly'')) = 10"
  using report_overall_compliance [where su = default_setup and now = 2000 and period = "''monthly''"
      and s = "initial_state\<lparr>sla_violations :=
         [response_time_violation (default_sla_thresholds ''api_response_time'')
            \<lparr>secs = 1, utcnow = 1000\<rparr> ''api'' (result_at 1000 UP (Some 600)) 600,
          response_time_violation (default_sla_thresholds ''api_response_time'')
            \<lparr>secs = 1, utcnow = 1000\<rparr> ''api'' (result_at 1000 UP (Some 600)) 600]\<rparr>"]
  by (simp add: response_time_violation_def result_at_def days_def default_sla_thresholds_def)

section \<open>Incident state machine\<close>

lemma handle_incident_typed:
  assumes "channels_typed (alert_channels su)"
  shows "\<exists>s'. handle_incident su d clk s m r = Inr s' \<and>
     current_incidents s' =
       (case current_incidents s m of
          Some old \<Rightarrow> current_incidents s
        | None \<Rightarrow> (current_incidents s)(m \<mapsto> (new_incident clk m r)\<lparr>alert_sent := True\<rparr>))"
  using assms
  by (simp add: handle_incident_def call_send_alert_typed Let_def split: option.splits)

lemma resolve_incident_typed:
  assumes "channels_typed (alert_channels su)"
  shows "\<exists>s'. resolve_incident su d s m r = Inr s' \<and>
     current_incidents s' = (current_incidents s)(m := None)"
  using assms
  by (auto simp: resolve_incident_def call_send_alert_typed split: option.splits)

lemma check_sla_violations_incidents:
  assumes "channels_typed (alert_channels su)"
  shows "\<exists>s'. check_sla_violations su d clk s m r = Inr s' \<and>
     current_incidents s' = current_incidents s"
  using assms
  by (simp add: check_sla_violations_def check_uptime_sla_def check_response_time_sla_def
      call_send_alert_typed Let_def split: option.splits)

lemma current_incidents_update_statistics:
  "current_incidents (update_statistics s m r) = current_incidents s"
  by (simp add: update_statistics_def Let_def)

lemma process_monitor_result_incidents:
  assumes "channels_typed (alert_channels su)"
  shows "\<exists>s'. process_monitor_result su d clk s m r = Inr s' \<and>
     current_incidents s' = incidents_after clk (current_incidents s) m r"
proof -
  obtain s1 where s1: "(if status r \<in> set [DOWN, DEGRADED] then handle_incident su d clk s m r
            else (case current_incidents s m of
                    Some inc \<Rightarrow> resolve_incident su d s m r
                  | None \<Rightarrow> Inr s)) = Inr s1"
    and i1: "current_incidents s1 = incidents_after clk (current_incidents s) m r"
  proof (cases "opens_incident (status r)")
    case True
    with handle_incident_typed [OF assms, of d clk s m r] that show ?thesis
      by (auto simp: incidents_after_def opens_incident_def)
  next
    case False
    with resolve_incident_typed [OF assms, of d s m r] that show ?thesis
      by (cases "current_incidents s m") (auto simp: incidents_after_def opens_incident_def fun_upd_idem)
  qed
  obtain s2 where s2: "check_sla_violations su d clk s1 m r = Inr s2"
    and i2: "current_incidents s2 = current_incidents s1"
    using check_sla_violations_incidents [OF assms] by blast
  have "process_monitor_result su d clk s m r = Inr (update_statistics s2 m r)"
    unfolding process_monitor_result_def s1 by (simp add: s2)
  then show ?thesis
    by (simp add: current_incidents_update_statistics i1 i2)
qed

lemma process_all_incidents:
  assumes "channels_typed (alert_channels su)"
  shows "\<exists>s'. process_all su d s xs = Inr s' \<and>
     current_incidents s' = incidents_run (current_incidents s) xs"
proof (induction xs arbitrary: s)
  case Nil
  show ?case by simp
next
  case (Cons x xs)
  obtain clk m r where x: "x = (clk, m, r)" by (cases x)
  obtain s1 where s1: "process_monitor_result su d clk s m r = Inr s1"
    and i1: "current_incidents s1 = incidents_after clk (current_incidents s) m r"
    using process_monitor_result_incidents [OF assms] by blast
  from Cons.IH [of s1] show ?case
    by (simp add: x s1 i1)
qed

lemma incidents_run_open:
  "(incidents_run inc xs m = None) =
     (case last_result m xs of
        None \<Rightarrow> inc m = None
      | Some r \<Rightarrow> \<not> opens_incident (status r))"
proof (induction xs arbitrary: inc)
  case Nil
  show ?case by simp
next
  case (Cons x xs)
  obtain clk n r where x: "x = (clk, n, r)" by (cases x)
  show ?case
    by (simp add: x Cons.IH incidents_after_def split: option.splits)
qed

text \<open>
  When every configured alert channel carries its \<open>type\<close>, the state machine is sound:
  after any sequence of processed results a monitor has an open incident if and only
  if the last result processed for it had status DOWN or DEGRADED (if none was
  processed for it, its incident state is as before).
\<close>

lemma incident_open_iff_last_result:
  assumes "channels_typed (alert_channels su)"
  shows "\<exists>s'. process_all su d s xs = Inr s' \<and>
     (current_incidents s' m \<noteq> None) =
       (case last_result m xs of
          None \<Rightarrow> current_incidents s m \<noteq> None
        | Some r \<Rightarrow> status r = DOWN \<or> status r = DEGRADED)"
proof -
  obtain s' where "process_all su d s xs = Inr s'"
    and "current_incidents s' = incidents_run (current_incidents s) xs"
    using process_all_incidents [OF assms] by blast
  then show ?thesis
    using incidents_run_open [of "current_incidents s" xs m]
    by (auto simp: opens_incident_def split: option.splits)
qed


lemma default_setup_typed: "channels_typed (alert_channels default_setup)"
  by (simp add: default_setup_def channels_typed_def)

lemma open_incident_id_process_all:
  assumes "channels_typed (alert_channels su)"
  shows "open_incident_id (process_all su d s xs) m =
     Inr (map_option incident_id (incidents_run (current_incidents s) xs m))"
  using process_all_incidents [OF assms, of d s xs] by (auto simp: open_incident_id_def)

lemma str_nat_1000: "str_nat 1000 = ''1000''"
  by (simp add: str_nat.simps digit_char_def char_of_def bit_0)

lemma send_alert_untyped_setup:
  "send_alert d (alert_channels untyped_setup) a =
     Inl (KeyError ''type'', [([''type'' \<mapsto> ''email''], d ''email'' [''type'' \<mapsto> ''email''] a)])"
  by (simp add: untyped_setup_def known_channel_type_def)

lemma call_send_alert_untyped_setup:
  "call_send_alert d (alert_channels untyped_setup) a s =
     Inl (KeyError ''type'', s\<lparr>alerts := alerts s @ [a]\<rparr>)"
  by (simp add: call_send_alert_def send_alert_untyped_setup)

lemma process_down_untyped:
  "process_monitor_result untyped_setup deliver_slack_only \<lparr>secs = 1000, utcnow = 1000000000\<rparr>
     initial_state ''api'' (result_at 1000000000 DOWN None) =
   Inl (KeyError ''type'',
     initial_state\<lparr>current_incidents :=
         [''api'' \<mapsto> new_incident \<lparr>secs = 1000, utcnow = 1000000000\<rparr> ''api''
                       (result_at 1000000000 DOWN None)],
       alerts := [\<lparr>severity = CRITICAL, a_incident_id = ''INC_1000_api''\<rparr>]\<rparr>)"
  by (simp add: process_monitor_result_def handle_incident_def call_send_alert_untyped_setup
      Let_def result_at_def initial_state_def new_incident_def str_nat_1000)

text \<open>
  Claim C1. With an alert channel that has no \<open>type\<close> entry, a DOWN result stores the
  incident and is then left by the \<open>KeyError\<close> of \<open>_send_alert\<close>; the UP result that
  follows is left by the same exception, raised by the resolution alert before the
  incident is deleted. The most recent result of the monitor is UP and its incident is
  still open.
\<close>

theorem incident_stays_open_after_up:
  "raised (process_monitor_result untyped_setup deliver_slack_only \<lparr>secs = 1000, utcnow = 1000000000\<rparr>
       initial_state ''api'' (result_at 1000000000 DOWN None)) = Some (KeyError ''type'') \<and>
   status (result_at 1060000000 UP (Some 150)) = UP \<and>
   raised (process_monitor_result untyped_setup deliver_slack_only \<lparr>secs = 1060, utcnow = 1060000000\<rparr>
       (state_after (process_monitor_result untyped_setup deliver_slack_only
          \<lparr>secs = 1000, utcnow = 1000000000\<rparr> initial_state ''api''
          (result_at 1000000000 DOWN None)))
       ''api'' (result_at 1060000000 UP (Some 150))) = Some (KeyError ''type'') \<and>
   map_option incident_id (current_incidents
     (state_after (process_monitor_result untyped_setup deliver_slack_only
        \<lparr>secs = 1060, utcnow = 1060000000\<rparr>
        (state_after (process_monitor_result untyped_setup deliver_slack_only
           \<lparr>secs = 1000, utcnow = 1000000000\<rparr> initial_state ''api''
           (result_at 1000000000 DOWN None)))
        ''api'' (result_at 1060000000 UP (Some 150)))) ''api'') = Some ''INC_1000_api''"
  unfolding process_down_untyped
  by (simp add: raised_def state_after_def process_monitor_result_def resolve_incident_def
      call_send_alert_untyped_setup result_at_def initial_state_def new_incident_def str_nat_1000)

section \<open>Incident identities\<close>

lemma str_nat_nonempty: "str_nat n \<noteq> []"
  by (subst str_nat.simps) simp

lemma str_nat_small: "n < 10 \<Longrightarrow> str_nat n = [digit_char n]"
  by (subst str_nat.simps) simp

lemma str_nat_large: "\<not> n < 10 \<Longrightarrow> str_nat n = str_nat (n div 10) @ [digit_char (n mod 10)]"
  by (subst str_nat.simps) simp

lemma digit_char_inj: "a < 10 \<Longrightarrow> b < 10 \<Longrightarrow> digit_char a = digit_char b \<Longrightarrow> a = b"
  by (simp add: digit_char_def char_of_eq_iff take_bit_eq_mod)

lemma str_nat_inj: "str_nat a = str_nat b \<Longrightarrow> a = b"
proof (induction a arbitrary: b rule: str_nat.induct)
  case (1 n)
  show ?case
  proof (cases "n < 10")
    case True
    show ?thesis
    proof (cases "b < 10")
      case True
      with \<open>n < 10\<close> "1.prems" show ?thesis
        by (simp add: str_nat_small digit_char_inj)
    next
      case False
      with \<open>n < 10\<close> "1.prems" show ?thesis
        using str_nat_nonempty [of "b div 10"] by (simp add: str_nat_small str_nat_large)
    qed
  next
    case False
    show ?thesis
    proof (cases "b < 10")
      case True
      with \<open>\<not> n < 10\<close> "1.prems" show ?thesis
        using str_nat_nonempty [of "n div 10"] by (simp add: str_nat_small str_nat_large)
    next
      case bl: False
      from False bl "1.prems"
      have eq: "str_nat (n div 10) = str_nat (b div 10)"
        and dg: "digit_char (n mod 10) = digit_char (b mod 10)"
        by (simp_all add: str_nat_large)
      from "1.IH" [OF False eq] have "n div 10 = b div 10" .
      moreover from dg have "n mod 10 = b mod 10"
        by (intro digit_char_inj) simp_all
      ultimately show ?thesis
        by (metis div_mult_mod_eq)
    qed
  qed
qed

lemma incident_id_eq_iff:
  "(incident_id (new_incident clk m r) = incident_id (new_incident clk' m r')) = (secs clk = secs clk')"
  using str_nat_inj [of "secs clk" "secs clk'"] by (auto simp: new_incident_def)

lemma incidents_run_append:
  "incidents_run inc (xs @ ys) = incidents_run (incidents_run inc xs) ys"
proof (induction xs arbitrary: inc)
  case Nil
  show ?case by simp
next
  case (Cons x xs)
  obtain clk n r where x: "x = (clk, n, r)" by (cases x)
  show ?case by (simp add: x Cons.IH)
qed

lemma incidents_after_opens:
  "inc m = None \<Longrightarrow> opens_incident (status r) \<Longrightarrow>
   incidents_after clk inc m r m = Some ((new_incident clk m r)\<lparr>alert_sent := True\<rparr>)"
  by (simp add: incidents_after_def)

text \<open>
  Claim C6, as amended. Let a DOWN or DEGRADED result open an incident for a Clear
  monitor while the clock shows second \<open>secs clk1\<close>, let the monitor be Clear again after
  the results that follow, and let a later DOWN or DEGRADED result arrive in second
  \<open>secs clk3\<close>. Then that result opens a new incident, and its identity equals the
  identity of the earlier incident if and only if the two seconds are the same: the
  identities are distinct whenever the two incidents are opened in different seconds.
\<close>

theorem flapping_incident_ids:
  assumes "channels_typed (alert_channels su)"
    and "current_incidents s m = None"
    and "status r1 = DOWN \<or> status r1 = DEGRADED"
    and "open_incident_id (process_all su d s ((clk1, m, r1) # xs)) m = Inr None"
    and "status r3 = DOWN \<or> status r3 = DEGRADED"
  shows "\<exists>i1 i3.
     open_incident_id (process_all su d s [(clk1, m, r1)]) m = Inr (Some i1) \<and>
     open_incident_id (process_all su d s ((clk1, m, r1) # xs @ [(clk3, m, r3)])) m = Inr (Some i3) \<and>
     (i3 = i1) = (secs clk3 = secs clk1)"
proof -
  let ?inc = "current_incidents s"
  have o1: "opens_incident (status r1)" and o3: "opens_incident (status r3)"
    using assms(3,5) by (simp_all add: opens_incident_def)
  have first: "incidents_run ?inc [(clk1, m, r1)] m =
      Some ((new_incident clk1 m r1)\<lparr>alert_sent := True\<rparr>)"
    using incidents_after_opens [of ?inc m r1 clk1] assms(2) o1 by simp
  have clear: "incidents_run ?inc ((clk1, m, r1) # xs) m = None"
    using assms(4) unfolding open_incident_id_process_all [OF assms(1)] by simp
  have "incidents_run ?inc (((clk1, m, r1) # xs) @ [(clk3, m, r3)]) m =
      Some ((new_incident clk3 m r3)\<lparr>alert_sent := True\<rparr>)"
    unfolding incidents_run_append
    using incidents_after_opens [of "incidents_run ?inc ((clk1, m, r1) # xs)" m r3 clk3] clear o3
    by simp
  then have third: "incidents_run ?inc ((clk1, m, r1) # xs @ [(clk3, m, r3)]) m =
      Some ((new_incident clk3 m r3)\<lparr>alert_sent := True\<rparr>)"
    by simp
  show ?thesis
    unfolding open_incident_id_process_all [OF assms(1)] first third
    using incident_id_eq_iff [of clk3 m r3 clk1 r1] by simp
qed

theorem flapping_incident_ids_witness:
  "channels_typed (alert_channels default_setup) \<and>
   open_incident_id (process_all default_setup deliver_slack_only initial_state
       [(\<lparr>secs = 1000, utcnow = 1000000000\<rparr>, ''api'', result_at 1000000000 DOWN None)])
     ''api'' = Inr (Some ''INC_1000_api'') \<and>
   open_incident_id (process_all default_setup deliver_slack_only initial_state
       [(\<lparr>secs = 1000, utcnow = 1000000000\<rparr>, ''api'', result_at 1000000000 DOWN None),
        (\<lparr>secs = 1060, utcnow = 1060000000\<rparr>, ''api'', result_at 1060000000 UP (Some 150))])
     ''api'' = Inr None \<and>
   (\<exists>i3. open_incident_id (process_all default_setup deliver_slack_only initial_state
       [(\<lparr>secs = 1000, utcnow = 1000000000\<rparr>, ''api'', result_at 1000000000 DOWN None),
        (\<lparr>secs = 1060, utcnow = 1060000000\<rparr>, ''api'', result_at 1060000000 UP (Some 150)),
        (\<lparr>secs = 1120, utcnow = 1120000000\<rparr>, ''api'', result_at 1120000000 DEGRADED (Some 9000))])
     ''api'' = Inr (Some i3) \<and> i3 \<noteq> ''INC_1000_api'')"
proof -
  have clear: "open_incident_id (process_all default_setup deliver_slack_only initial_state
       ((\<lparr>secs = 1000, utcnow = 1000000000\<rparr>, ''api'', result_at 1000000000 DOWN None) #
        [(\<lparr>secs = 1060, utcnow = 1060000000\<rparr>, ''api'', result_at 1060000000 UP (Some 150))]))
     ''api'' = Inr None"
    unfolding open_incident_id_process_all [OF default_setup_typed]
    by (simp add: result_at_def initial_state_def incidents_after_def opens_incident_def)
  have first: "open_incident_id (process_all default_setup deliver_slack_only initial_state
       [(\<lparr>secs = 1000, utcnow = 1000000000\<rparr>, ''api'', result_at 1000000000 DOWN None)])
     ''api'' = Inr (Some ''INC_1000_api'')"
    unfolding open_incident_id_process_all [OF default_setup_typed]
    by (simp add: result_at_def initial_state_def incidents_after_def opens_incident_def
        new_incident_def str_nat_1000)
  have c: "current_incidents initial_state ''api'' = None"
    by (simp add: initial_state_def)
  have d1: "status (result_at 1000000000 DOWN None) = DOWN \<or>
      status (result_at 1000000000 DOWN None) = DEGRADED"
    by (simp add: result_at_def)
  have d3: "status (result_at 1120000000 DEGRADED (Some 9000)) = DOWN \<or>
      status (result_at 1120000000 DEGRADED (Some 9000)) = DEGRADED"
    by (simp add: result_at_def)
  show ?thesis
    using default_setup_typed first clear
      flapping_incident_ids [OF default_setup_typed c d1 clear d3,
        of "\<lparr>secs = 1120, utcnow = 1120000000\<rparr>"]
    by auto
qed

text \<open>
  Claim C6 as stated fails when the monitor flaps within one second of the clock: the
  incident opened after the resolution has the identity of the resolved one.
\<close>

theorem flapping_same_second_counterexample:
  "open_incident_id (process_all default_setup deliver_all initial_state
       [(\<lparr>secs = 1000, utcnow = 1000000000\<rparr>, ''api'', result_at 1000000000 DOWN None)])
     ''api'' = Inr (Some ''INC_1000_api'') \<and>
   open_incident_id (process_all default_setup deliver_all initial_state
       [(\<lparr>secs = 1000, utcnow = 1000000000\<rparr>, ''api'', result_at 1000000000 DOWN None),
        (\<lparr>secs = 1000, utcnow = 1000300000\<rparr>, ''api'', result_at 1000300000 UP (Some 150))])
     ''api'' = Inr None \<and>
   open_incident_id (process_all default_setup deliver_all initial_state
       [(\<lparr>secs = 1000, utcnow = 1000000000\<rparr>, ''api'', result_at 1000000000 DOWN None),
        (\<lparr>secs = 1000, utcnow = 1000300000\<rparr>, ''api'', result_at 1000300000 UP (Some 150)),
        (\<lparr>secs = 1000, utcnow = 1000600000\<rparr>, ''api'', result_at 1000600000 DOWN None)])
     ''api'' = Inr (Some ''INC_1000_api'')"
  unfolding open_incident_id_process_all [OF default_setup_typed]
  by (simp add: result_at_def initial_state_def incidents_after_def opens_incident_def
      new_incident_def str_nat_1000)

section \<open>Latency statistics\<close>

lemma keep_last_drop: "keep_last xs = drop (length xs - 1000) xs"
  by (simp add: keep_last_def)

lemma performance_stats_update_statistics:
  "performance_stats (update_statistics s m r) =
     (performance_stats s)(m \<mapsto> foldl update_perf (perf_or_new (performance_stats s m)) (sample_of r))"
  by (simp add: update_statistics_def Let_def sample_of_def truthy_def perf_or_new_def
      split: option.splits)

lemma samples_of_simps:
  "samples_of m [] = []"
  "samples_of m ((n, r) # xs) = (if n = m then sample_of r @ samples_of m xs else samples_of m xs)"
  by (simp_all add: samples_of_def checks_of_simps)

lemma perf_or_new_simps:
  "perf_or_new None = new_perf_stat"
  "perf_or_new (Some p) = p"
  by (simp_all add: perf_or_new_def)

lemma samples_of_no_checks: "checks_of m xs = [] \<Longrightarrow> samples_of m xs = []"
  by (simp add: samples_of_def)

lemma performance_stats_all:
  "performance_stats (update_statistics_all s xs) m =
     (if checks_of m xs = [] then performance_stats s m
      else Some (foldl update_perf (perf_or_new (performance_stats s m)) (samples_of m xs)))"
proof (induction xs arbitrary: s)
  case Nil
  then show ?case by (simp add: checks_of_simps)
next
  case (Cons x xs)
  obtain n r where x: "x = (n, r)" by (cases x)
  show ?case
    by (simp add: x Cons.IH checks_of_simps samples_of_simps performance_stats_update_statistics
        samples_of_no_checks perf_or_new_simps)
qed

lemma response_times_update_perf:
  "response_times (update_perf p t) =
     drop (length (response_times p @ [t]) - 1000) (response_times p @ [t])"
  by (simp add: update_perf_def keep_last_drop Let_def)

lemma drop_window_snoc:
  "drop (length (drop (length zs - 1000) zs @ [t]) - 1000) (drop (length zs - 1000) zs @ [t]) =
     drop (length (zs @ [t]) - 1000) (zs @ [t])"
proof (cases "length zs < 1000")
  case True
  then show ?thesis by simp
next
  case False
  then have n: "1000 \<le> length zs" by simp
  then have k: "length zs - 1000 + 1 = length zs + 1 - 1000" by simp
  have len: "length (drop (length zs - 1000) zs) = 1000"
    using n by simp
  have "drop (length (drop (length zs - 1000) zs @ [t]) - 1000) (drop (length zs - 1000) zs @ [t]) =
      drop 1 (drop (length zs - 1000) zs @ [t])"
    using len by simp
  also have "\<dots> = drop 1 (drop (length zs - 1000) zs) @ [t]"
    using len by simp
  also have "\<dots> = drop (length zs + 1 - 1000) zs @ [t]"
    using k by (simp add: add.commute)
  also have "\<dots> = drop (length (zs @ [t]) - 1000) (zs @ [t])"
    using n by simp
  finally show ?thesis .
qed

lemma response_times_foldl:
  "length (response_times p) \<le> 1000 \<Longrightarrow>
   response_times (foldl update_perf p ts) =
     drop (length (response_times p @ ts) - 1000) (response_times p @ ts)"
proof (induction ts rule: rev_induct)
  case Nil
  then show ?case by simp
next
  case (snoc t ts)
  have "response_times (foldl update_perf p (ts @ [t])) =
      response_times (update_perf (foldl update_perf p ts) t)"
    by simp
  also have "\<dots> = drop (length (response_times (foldl update_perf p ts) @ [t]) - 1000)
      (response_times (foldl update_perf p ts) @ [t])"
    by (rule response_times_update_perf)
  also have "\<dots> = drop (length ((response_times p @ ts) @ [t]) - 1000) ((response_times p @ ts) @ [t])"
    unfolding snoc.IH [OF snoc.prems] by (rule drop_window_snoc)
  finally show ?case by simp
qed

lemma min_max_update_perf:
  "min_response_time (update_perf p t) = min_pyfloat (min_response_time p) t"
  "max_response_time (update_perf p t) = max (max_response_time p) t"
  by (simp_all add: update_perf_def Let_def)

lemma min_response_time_foldl:
  "min_response_time (foldl update_perf new_perf_stat ts) =
     (if ts = [] then Infinity else Finite (Min (set ts)))"
proof (induction ts rule: rev_induct)
  case Nil
  show ?case by (simp add: new_perf_stat_def)
next
  case (snoc t ts)
  then show ?case
    by (cases "ts = []") (simp_all add: min_max_update_perf new_perf_stat_def min.commute)
qed

lemma max_response_time_foldl:
  "max_response_time (foldl update_perf new_perf_stat ts) = Max (insert 0 (set ts))"
proof (induction ts rule: rev_induct)
  case Nil
  show ?case by (simp add: new_perf_stat_def)
next
  case (snoc t ts)
  have "Max (insert 0 (set (ts @ [t]))) = Max (insert t (insert 0 (set ts)))"
    by (simp add: insert_commute)
  also have "\<dots> = max t (Max (insert 0 (set ts)))"
    by (rule Max_insert) simp_all
  finally show ?case
    using snoc by (simp add: min_max_update_perf max.commute)
qed

lemma avg_response_time_foldl:
  "ts \<noteq> [] \<Longrightarrow>
   avg_response_time (foldl update_perf p ts) =
     sum_list (response_times (foldl update_perf p ts)) /
       real (length (response_times (foldl update_perf p ts)))"
  by (cases ts rule: rev_cases) (simp_all add: update_perf_def Let_def)

lemma perf_after_samples:
  "(case performance_stats (update_statistics_all initial_state xs) m of
      None \<Rightarrow> checks_of m xs = []
    | Some p \<Rightarrow>
        response_times p = drop (length (samples_of m xs) - 1000) (samples_of m xs) \<and>
        length (response_times p) \<le> 1000 \<and>
        (samples_of m xs \<noteq> [] \<longrightarrow>
           avg_response_time p = sum_list (response_times p) / real (length (response_times p)) \<and>
           min_response_time p = Finite (Min (set (samples_of m xs))) \<and>
           max_response_time p = Max (insert 0 (set (samples_of m xs)))))"
proof (cases "checks_of m xs = []")
  case True
  then show ?thesis by (simp add: performance_stats_all initial_state_def)
next
  case False
  have new: "length (response_times new_perf_stat) \<le> 1000"
    by (simp add: new_perf_stat_def)
  have rt: "response_times (foldl update_perf new_perf_stat (samples_of m xs)) =
      drop (length (samples_of m xs) - 1000) (samples_of m xs)"
    using response_times_foldl [OF new, of "samples_of m xs"] by (simp add: new_perf_stat_def)
  show ?thesis
    using False rt avg_response_time_foldl [of "samples_of m xs" new_perf_stat]
    by (simp add: performance_stats_all initial_state_def perf_or_new_def
        min_response_time_foldl max_response_time_foldl)
qed


text \<open>
  Claim C8, as amended. Starting from a monitor without statistics, after any sequence
  of calls of \<open>_update_statistics\<close> the store holds for a monitor the most recent 1000
  of the samples recorded for it (its latencies that are neither absent nor zero), so
  at most 1000; and once a sample has been recorded, the average is the mean of the
  retained samples, the minimum is the minimum of all samples recorded so far, retained
  or not, and the maximum is the maximum of 0 and all samples recorded so far.
\<close>

theorem perf_stats_of_samples:
  "(case performance_stats (update_statistics_all initial_state xs) m of
      None \<Rightarrow> checks_of m xs = []
    | Some p \<Rightarrow>
        response_times p = drop (length (samples_of m xs) - 1000) (samples_of m xs) \<and>
        length (response_times p) \<le> 1000 \<and>
        (samples_of m xs \<noteq> [] \<longrightarrow>
           avg_response_time p = sum_list (response_times p) / real (length (response_times p)) \<and>
           min_response_time p = Finite (Min (set (samples_of m xs))) \<and>
           max_response_time p = Max (insert 0 (set (samples_of m xs)))))"
  by (rule perf_after_samples)

theorem perf_stats_of_samples_witness:
  "samples_of ''api'' [(''api'', result_at 1 UP (Some 150)), (''db'', result_at 2 UP (Some 7)),
      (''api'', result_at 3 DOWN None), (''api'', result_at 4 DEGRADED (Some 900))] \<noteq> [] \<and>
   (\<exists>p. performance_stats (update_statistics_all initial_state
        [(''api'', result_at 1 UP (Some 150)), (''db'', result_at 2 UP (Some 7)),
         (''api'', result_at 3 DOWN None), (''api'', result_at 4 DEGRADED (Some 900))]) ''api'' = Some p \<and>
      response_times p = [150, 900] \<and> avg_response_time p = 525 \<and>
      min_response_time p = Finite 150 \<and> max_response_time p = 900)"
  using perf_stats_of_samples [where m = "''api''" and xs = "[(''api'', result_at 1 UP (Some 150)),
      (''db'', result_at 2 UP (Some 7)), (''api'', result_at 3 DOWN None),
      (''api'', result_at 4 DEGRADED (Some 900))]"]
  by (simp add: samples_of_simps sample_of_def result_at_def performance_stats_all checks_of_simps
      split: option.splits)

lemma checks_of_replicate: "checks_of m (replicate n (m, r)) = replicate n r"
  by (induction n) (simp_all add: checks_of_simps)

lemma samples_of_replicate:
  "sample_of r = [t] \<Longrightarrow> samples_of m (replicate n (m, r)) = replicate n t"
  by (induction n) (simp_all add: samples_of_simps)

lemma samples_of_eviction_input: "samples_of ''api'' eviction_input = 1 # replicate 1000 5"
  by (simp add: eviction_input_def samples_of_simps samples_of_replicate sample_of_def result_at_def)

text \<open>
  Claim C8 as stated fails once a sample has been evicted: after a sample of 1 ms and a
  thousand samples of 5 ms the retained samples are the thousand of 5 ms, with minimum
  5, and the derived minimum is still 1.
\<close>

theorem running_minimum_counterexample:
  "map_option response_times
     (performance_stats (update_statistics_all initial_state eviction_input) ''api'') =
     Some (replicate 1000 5) \<and>
   map_option min_response_time
     (performance_stats (update_statistics_all initial_state eviction_input) ''api'') =
     Some (Finite 1) \<and>
   Min (set (replicate 1000 (5::real))) = 5"
proof -
  have c: "checks_of ''api'' eviction_input \<noteq> []"
    by (simp add: eviction_input_def checks_of_simps)
  show ?thesis
    using c perf_after_samples [where m = "''api''" and xs = eviction_input]
    by (auto simp: samples_of_eviction_input split: option.splits)
qed

end
